theory Spec2Isabelle
  imports Complex_Main
begin

section \<open>Python values, remote handles and errors\<close>

text \<open>
  The Python layer of the library passes plain Python values and opaque references to
  objects of the JVM across a bridge. A remote handle is only ever compared and passed
  on, so it is a number. \<open>PyObject c b\<close> stands for an object of any other class
  \<open>c\<close> (a dict, a subclass of DataFrame, ...), with the truth value \<open>b\<close> Python gives it.
\<close>

type_synonym handle = nat

datatype pyval =
    PyNone
  | PyBool bool
  | PyInt int
  | PyStr string
  | PyList "pyval list"
  | PyDataFrame handle
  | PyObject string bool

text \<open>Python's truth test, as \<^verbatim>\<open>not column\<close> applies it.\<close>

fun truthy :: "pyval \<Rightarrow> bool" where
  "truthy PyNone = False"
| "truthy (PyBool b) = b"
| "truthy (PyInt i) = (i \<noteq> 0)"
| "truthy (PyStr s) = (s \<noteq> [])"
| "truthy (PyList xs) = (xs \<noteq> [])"
| "truthy (PyDataFrame d) = True"
| "truthy (PyObject c b) = b"

text \<open>
  What a call can raise: an exception of the Python layer itself (\<open>Exception\<close> with its
  message, \<open>TypeError\<close> of a call that does not fit the signature), or whatever the remote
  side raised, which the layer lets through: \<open>Remote\<close> with the remote side's description
  of its error.
\<close>

datatype error =
    Exception string
  | TypeError
  | AttributeError string
  | OverflowError
  | ZeroDivisionError
  | InvalidArgumentError
  | Remote string

section \<open>Bridge wrappers (sparknlp/internal/__init__.py)\<close>

text \<open>
  Modelled from the spec: the base class ExtendedJavaWrapper is not among the sources.
  A bridge wrapper "wraps a fully-qualified remote class name plus constructor
  arguments; on invocation they serialize arguments and return an opaque remote handle".
  The remote side is the parameter \<open>jvm\<close>.
\<close>

record ExtendedJavaWrapper =
  java_class :: string
  java_args :: "pyval list"

type_synonym jvm = "string \<Rightarrow> pyval list \<Rightarrow> string + handle"

definition apply_wrapper :: "jvm \<Rightarrow> ExtendedJavaWrapper \<Rightarrow> error + handle" where
  "apply_wrapper remote w =
     (case remote (java_class w) (java_args w) of Inl e \<Rightarrow> Inl (Remote e) | Inr j_obj \<Rightarrow> Inr j_obj)"

text \<open>
  The constructors, each applied to the list of positional arguments of the call (after
  \<open>self\<close>). No parameter has a default, so Python raises TypeError unless the call gives
  exactly as many arguments as the signature has parameters.
  \<^verbatim>\<open>def __init__(self, reader, name, language, remote_loc, validator)\<close>
\<close>

definition DownloadModel_init :: "pyval list \<Rightarrow> error + ExtendedJavaWrapper" where
  "DownloadModel_init args =
     (case args of
        [reader, name, language, remote_loc, validator] \<Rightarrow>
          (case validator of
             PyStr v \<Rightarrow>
               Inr \<lparr>java_class = ''com.johnsnowlabs.nlp.pretrained.'' @ v @ ''.downloadModel'',
                    java_args = [reader, name, language, remote_loc]\<rparr>
           | _ \<Rightarrow> Inl TypeError)
      | _ \<Rightarrow> Inl TypeError)"

text \<open>\<^verbatim>\<open>def __init__(self, name, language, remote_loc)\<close>\<close>

definition DownloadPipeline_init :: "pyval list \<Rightarrow> error + ExtendedJavaWrapper" where
  "DownloadPipeline_init args =
     (case args of
        [name, language, remote_loc] \<Rightarrow>
          Inr \<lparr>java_class = ''com.johnsnowlabs.nlp.pretrained.PythonResourceDownloader.downloadPipeline'',
               java_args = [name, language, remote_loc]\<rparr>
      | _ \<Rightarrow> Inl TypeError)"

text \<open>\<^verbatim>\<open>def __init__(self, annotator, lang, version)\<close>\<close>

definition ShowPublicModels_init :: "pyval list \<Rightarrow> error + ExtendedJavaWrapper" where
  "ShowPublicModels_init args =
     (case args of
        [annotator, lang, version] \<Rightarrow>
          Inr \<lparr>java_class = ''com.johnsnowlabs.nlp.pretrained.PythonResourceDownloader.showPublicModels'',
               java_args = [annotator, lang, version]\<rparr>
      | _ \<Rightarrow> Inl TypeError)"

section \<open>The resource downloader (sparknlp/pretrained.py)\<close>

subsection \<open>printProgress\<close>

text \<open>
  The progress bar is built from the full block character U+2588, which is one character
  of a Python string, and from ASCII characters.
\<close>

datatype pychar = Ascii char | FullBlock


text \<open>
  \<^verbatim>\<open>'\r[{}{}]'.format(b * done, c * max(2, dot))\<close>, where \<open>b\<close> is the full block. A string
  times a negative number is the empty string, as \<open>nat\<close> of a negative number is 0.
\<close>

definition bar :: "int \<Rightarrow> pychar \<Rightarrow> int \<Rightarrow> pychar list" where
  "bar done c dot =
     [Ascii (CHR 0x0D), Ascii CHR ''[''] @ replicate (nat done) FullBlock
       @ replicate (nat (max 2 dot)) c @ [Ascii CHR '']'']"




subsection \<open>ResourceDownloader\<close>

text \<open>
  A reader is an annotator class: \<open>reader.name\<close> is its class attribute, and calling the
  class with \<^verbatim>\<open>classname=None, java_model=j_obj\<close> gives an instance around the handle.
\<close>

record reader =
  reader_name :: string

record annotator_instance =
  instance_of :: string
  classname :: "string option"
  java_model :: "handle option"

definition construct :: "reader \<Rightarrow> string option \<Rightarrow> handle option \<Rightarrow> annotator_instance" where
  "construct r cn jm = \<lparr>instance_of = reader_name r, classname = cn, java_model = jm\<rparr>"

definition remote_loc_arg :: "string option \<Rightarrow> pyval" where
  "remote_loc_arg l = (case l of None \<Rightarrow> PyNone | Some s \<Rightarrow> PyStr s)"

text \<open>
  downloadModel returns what it printed on the calling thread and the instance, or the
  error it raised. The progress thread only writes to the terminal and is left out; when
  the call raises before \<^verbatim>\<open>stop_threads = True\<close>, nothing after it runs.
\<close>

definition downloadModel ::
  "jvm \<Rightarrow> reader \<Rightarrow> string \<Rightarrow> string \<Rightarrow> string option \<Rightarrow> string list \<times> (error + annotator_instance)" where
  "downloadModel remote r name language remote_loc =
     (let printed = [name @ '' download started this may take some time''] in
      case DownloadModel_init [PyStr (reader_name r), PyStr name, PyStr language, remote_loc_arg remote_loc] of
        Inl e \<Rightarrow> (printed, Inl e)
      | Inr w \<Rightarrow>
          (case apply_wrapper remote w of
             Inl e \<Rightarrow> (printed, Inl e)
           | Inr j_obj \<Rightarrow> (printed @ [''Download done''], Inr (construct r None (Some j_obj)))))"

definition downloadPipeline ::
  "jvm \<Rightarrow> string \<Rightarrow> string \<Rightarrow> string option \<Rightarrow> string list \<times> (error + handle)" where
  "downloadPipeline remote name language remote_loc =
     (let printed = [name @ '' download started this may take some time''] in
      case DownloadPipeline_init [PyStr name, PyStr language, remote_loc_arg remote_loc] of
        Inl e \<Rightarrow> (printed, Inl e)
      | Inr w \<Rightarrow>
          (case apply_wrapper remote w of
             Inl e \<Rightarrow> (printed, Inl e)
           | Inr j_obj \<Rightarrow> (printed @ [''Download done''], Inr j_obj)))"

definition showPublicModels :: "jvm \<Rightarrow> string list \<times> (error + unit)" where
  "showPublicModels remote =
     (let printed = [''test''] in
      case ShowPublicModels_init [] of
        Inl e \<Rightarrow> (printed, Inl e)
      | Inr w \<Rightarrow>
          (case apply_wrapper remote w of
             Inl e \<Rightarrow> (printed, Inl e)
           | Inr j_obj \<Rightarrow> (printed, Inr ())))"

subsection \<open>PretrainedPipeline\<close>

text \<open>
  The pipeline holds two remote objects, the model and the light pipeline. Their methods,
  and \<open>withColumnRenamed\<close> of a DataFrame, run on the remote side and are parameters here;
  each returns a value or the remote side's description of the error it raised.
\<close>

record PretrainedPipeline =
  withColumnRenamed :: "handle \<Rightarrow> pyval \<Rightarrow> string \<Rightarrow> string + handle"
  model_transform :: "handle \<Rightarrow> string + handle"
  light_annotate :: "pyval \<Rightarrow> string + pyval"
  light_fullAnnotate :: "pyval \<Rightarrow> string + pyval"

text \<open>A remote call as the Python layer sees it: the value, or the remote error let through.\<close>

definition remote_call :: "string + 'a \<Rightarrow> error + 'a" where
  "remote_call res = (case res of Inl e \<Rightarrow> Inl (Remote e) | Inr v \<Rightarrow> Inr v)"

text \<open>\<^verbatim>\<open>self.model.transform(target.withColumnRenamed(column, "text"))\<close>\<close>

definition transform_renamed :: "PretrainedPipeline \<Rightarrow> handle \<Rightarrow> pyval \<Rightarrow> error + pyval" where
  "transform_renamed self df column =
     (case remote_call (withColumnRenamed self df column ''text'') of
        Inl e \<Rightarrow> Inl e
      | Inr renamed \<Rightarrow>
          (case remote_call (model_transform self renamed) of
             Inl e \<Rightarrow> Inl e
           | Inr res \<Rightarrow> Inr (PyDataFrame res)))"

definition annotate :: "PretrainedPipeline \<Rightarrow> pyval \<Rightarrow> pyval \<Rightarrow> error + pyval" where
  "annotate self target column =
     (case target of
        PyDataFrame df \<Rightarrow>
          if \<not> truthy column
          then Inl (Exception ''annotate() column arg needed when targeting a DataFrame'')
          else transform_renamed self df column
      | PyList xs \<Rightarrow> remote_call (light_annotate self target)
      | PyStr s \<Rightarrow> remote_call (light_annotate self target)
      | _ \<Rightarrow> Inl (Exception ''target must be either a spark DataFrame, a list of strings or a string''))"

definition fullAnnotate :: "PretrainedPipeline \<Rightarrow> pyval \<Rightarrow> pyval \<Rightarrow> error + pyval" where
  "fullAnnotate self target column =
     (case target of
        PyDataFrame df \<Rightarrow>
          if \<not> truthy column
          then Inl (Exception ''annotate() column arg needed when targeting a DataFrame'')
          else transform_renamed self df column
      | PyList xs \<Rightarrow> remote_call (light_fullAnnotate self target)
      | PyStr s \<Rightarrow> remote_call (light_fullAnnotate self target)
      | _ \<Rightarrow> Inl (Exception ''target must be either a spark DataFrame, a list of strings or a string''))"





section \<open>The annotator facade (sparknlp/annotator/embeddings/xlnet_embeddings.py)\<close>

text \<open>
  An annotator keeps its parameters as pyspark's \<open>Params\<close> does: a map of the values set
  explicitly and a map of the defaults, both keyed by the parameter's name. \<open>uid\<close> is the
  identity of the instance and \<open>java_obj\<close> the remote handle it wraps.
\<close>

record XlnetEmbeddings =
  uid :: string
  java_obj :: "handle option"
  paramMap :: "string \<rightharpoonup> pyval"
  defaultParamMap :: "string \<rightharpoonup> pyval"

text \<open>
  The type converters a \<open>Param\<close> names (pyspark's \<open>TypeConverters\<close>): each returns the
  value when it has the type and raises TypeError otherwise. A bool is not accepted as
  an int. \<open>toInt\<close> accepts a value of type \<open>int\<close> when \<^verbatim>\<open>float(value).is_integer()\<close> holds;
  for an \<open>int\<close> the test is true whenever \<open>float(value)\<close> returns, and \<open>float\<close> raises
  OverflowError for an integer that rounds to no double, which are the integers of
  magnitude \<open>2^1024 - 2^970\<close> and above.
\<close>

definition toInt :: "pyval \<Rightarrow> error + pyval" where
  "toInt v =
     (case v of
        PyInt i \<Rightarrow> if \<bar>i\<bar> < 2 ^ 1024 - 2 ^ 970 then Inr (PyInt i) else Inl OverflowError
      | _ \<Rightarrow> Inl TypeError)"

definition toBoolean :: "pyval \<Rightarrow> error + pyval" where
  "toBoolean v =
     (case v of PyBool b \<Rightarrow> Inr (PyBool b) | _ \<Rightarrow> Inl TypeError)"

text \<open>
  \<open>toListInt\<close> accepts a list whose elements \<open>toInt\<close> accepts; the first element that is
  not accepted decides the error.
\<close>

fun toListInt_elements :: "pyval list \<Rightarrow> error + pyval list" where
  "toListInt_elements [] = Inr []"
| "toListInt_elements (x # xs) =
     (case toInt x of
        Inl e \<Rightarrow> Inl e
      | Inr i \<Rightarrow> (case toListInt_elements xs of Inl e \<Rightarrow> Inl e | Inr js \<Rightarrow> Inr (i # js)))"

definition toListInt :: "pyval \<Rightarrow> error + pyval" where
  "toListInt v =
     (case v of
        PyList xs \<Rightarrow> (case toListInt_elements xs of Inl e \<Rightarrow> Inl e | Inr js \<Rightarrow> Inr (PyList js))
      | _ \<Rightarrow> Inl TypeError)"

text \<open>
  The parameter schema of XlnetEmbeddings: \<open>getattr(self, name).typeConverter\<close>.
  \<open>configProtoBytes\<close> and \<open>maxSentenceLength\<close> are declared in the class itself.
  Modelled from the spec: the mixins that declare \<open>batchSize\<close>, \<open>dimension\<close> and
  \<open>caseSensitive\<close> (sparknlp.common) are not among the sources; the spec fixes the schema
  as "batch size, dimension, max sentence length, case sensitivity, serialized
  configuration bytes".
\<close>

definition typeConverter :: "string \<Rightarrow> (pyval \<Rightarrow> error + pyval) option" where
  "typeConverter p =
     (if p = ''configProtoBytes'' then Some toListInt
      else if p = ''maxSentenceLength'' then Some toInt
      else if p = ''batchSize'' then Some toInt
      else if p = ''dimension'' then Some toInt
      else if p = ''caseSensitive'' then Some toBoolean
      else None)"

text \<open>
  \<^verbatim>\<open>self._set(p=v)\<close> of pyspark's \<open>Params\<close>: a value other than None goes through the
  parameter's type converter, the result is stored in the map of explicit values, and
  the method returns \<open>self\<close>, which here is the updated instance.
\<close>

definition Params_set :: "XlnetEmbeddings \<Rightarrow> string \<Rightarrow> pyval \<Rightarrow> error + XlnetEmbeddings" where
  "Params_set self p v =
     (case typeConverter p of
        None \<Rightarrow> Inl (AttributeError p)
      | Some conv \<Rightarrow>
          if v = PyNone then Inr (self\<lparr>paramMap := (paramMap self)(p \<mapsto> v)\<rparr>)
          else (case conv v of
                  Inl e \<Rightarrow> Inl e
                | Inr v' \<Rightarrow> Inr (self\<lparr>paramMap := (paramMap self)(p \<mapsto> v')\<rparr>)))"

text \<open>\<^verbatim>\<open>self._setDefault(**kwargs)\<close>: the same for the map of defaults, one keyword after another.\<close>

fun Params_setDefault :: "XlnetEmbeddings \<Rightarrow> (string \<times> pyval) list \<Rightarrow> error + XlnetEmbeddings" where
  "Params_setDefault self [] = Inr self"
| "Params_setDefault self ((p, v) # kwargs) =
     (case typeConverter p of
        None \<Rightarrow> Inl (AttributeError p)
      | Some conv \<Rightarrow>
          if v = PyNone
          then Params_setDefault (self\<lparr>defaultParamMap := (defaultParamMap self)(p \<mapsto> v)\<rparr>) kwargs
          else (case conv v of
                  Inl e \<Rightarrow> Inl e
                | Inr v' \<Rightarrow>
                    Params_setDefault (self\<lparr>defaultParamMap := (defaultParamMap self)(p \<mapsto> v')\<rparr>) kwargs))"

definition getOrDefault :: "XlnetEmbeddings \<Rightarrow> string \<Rightarrow> pyval option" where
  "getOrDefault self p = (case paramMap self p of Some v \<Rightarrow> Some v | None \<Rightarrow> defaultParamMap self p)"

definition setConfigProtoBytes :: "XlnetEmbeddings \<Rightarrow> pyval \<Rightarrow> error + XlnetEmbeddings" where
  "setConfigProtoBytes self b = Params_set self ''configProtoBytes'' b"

definition setMaxSentenceLength :: "XlnetEmbeddings \<Rightarrow> pyval \<Rightarrow> error + XlnetEmbeddings" where
  "setMaxSentenceLength self v = Params_set self ''maxSentenceLength'' v"

text \<open>
  The constructor. \<open>base\<close> is the instance as the constructor of the superclass
  (AnnotatorModel, not among the sources) leaves it; the class then sets its defaults.
\<close>

definition XlnetEmbeddings_init :: "XlnetEmbeddings \<Rightarrow> error + XlnetEmbeddings" where
  "XlnetEmbeddings_init base =
     Params_setDefault base
       [(''batchSize'', PyInt 8), (''dimension'', PyInt 768),
        (''maxSentenceLength'', PyInt 128), (''caseSensitive'', PyBool True)]"

section \<open>The language model trainer (sparknlp/spellchecker/rnn_lm.py)\<close>

subsection \<open>The learning rate\<close>

text \<open>
  The framework's \<open>exponential_decay\<close>, as its documentation defines it:
  \<open>learning_rate * decay_rate ^ (global_step / decay_steps)\<close>, the quotient being an
  integer division when \<open>staircase\<close> is set. The framework computes in 32-bit floating
  point; the model computes in the real numbers.
\<close>

definition exponential_decay :: "real \<Rightarrow> nat \<Rightarrow> nat \<Rightarrow> real \<Rightarrow> bool \<Rightarrow> real" where
  "exponential_decay rate global_step decay_steps decay_rate staircase =
     (if staircase then rate * decay_rate ^ (global_step div decay_steps)
      else rate * decay_rate powr (real global_step / real decay_steps))"

text \<open>
  \<^verbatim>\<open>tf.cond(tf.less(self.learning_rate, final_learning_rate),
          lambda: tf.constant(final_learning_rate), lambda: self.learning_rate)\<close>
\<close>

definition learning_rate :: "real \<Rightarrow> real \<Rightarrow> nat \<Rightarrow> real" where
  "learning_rate initial_learning_rate final_learning_rate global_step =
     (let decayed = exponential_decay initial_learning_rate global_step 150 0.96 True
      in if decayed < final_learning_rate then final_learning_rate else decayed)"

subsection \<open>parse\<close>

text \<open>
  \<^verbatim>\<open>tf.string_split([line]).values\<close>: the framework splits at its default delimiter, the
  space character, and drops the empty pieces.
\<close>

fun pieces :: "string \<Rightarrow> string list" where
  "pieces [] = [[]]"
| "pieces (c # cs) =
     (if c = CHR '' '' then [] # pieces cs
      else (case pieces cs of [] \<Rightarrow> [[c]] | p # ps \<Rightarrow> (c # p) # ps))"

definition string_split :: "string \<Rightarrow> string list" where
  "string_split line = filter (\<lambda>p. p \<noteq> []) (pieces line)"

text \<open>
  \<^verbatim>\<open>tf.string_to_number(..., out_type=tf.int32)\<close> on one string: white space around the
  number is skipped, then an optional minus sign and at least one decimal digit must
  make up the whole string, and the number must fit 32 bits; anything else is an
  InvalidArgumentError of the framework.
\<close>

definition is_space :: "char \<Rightarrow> bool" where
  "is_space c = (c \<in> set [CHR '' '', CHR 0x09, CHR 0x0A, CHR 0x0B, CHR 0x0C, CHR 0x0D])"

definition is_digit :: "char \<Rightarrow> bool" where
  "is_digit c = (c \<in> set ''0123456789'')"

definition digits_value :: "string \<Rightarrow> int" where
  "digits_value ds = foldl (\<lambda>a c. 10 * a + (int (of_char c) - 48)) 0 ds"

definition string_to_number :: "string \<Rightarrow> error + int" where
  "string_to_number s =
     (let t = dropWhile is_space s;
          neg = (t \<noteq> [] \<and> hd t = CHR ''-'');
          r = (if neg then tl t else t);
          ds = takeWhile is_digit r;
          rest = dropWhile is_space (dropWhile is_digit r);
          v = digits_value ds
      in if ds = [] \<or> rest \<noteq> [] then Inl InvalidArgumentError
         else if v > (if neg then 2147483648 else 2147483647) then Inl InvalidArgumentError
         else Inr (if neg then - v else v))"

text \<open>The same on a vector of strings: the operation fails when one element does.\<close>

fun strings_to_numbers :: "string list \<Rightarrow> error + int list" where
  "strings_to_numbers [] = Inr []"
| "strings_to_numbers (t # ts) =
     (case string_to_number t of
        Inl e \<Rightarrow> Inl e
      | Inr v \<Rightarrow> (case strings_to_numbers ts of Inl e \<Rightarrow> Inl e | Inr vs \<Rightarrow> Inr (v # vs)))"

text \<open>
  \<open>values[:-1]\<close> is \<open>butlast\<close> and \<open>values[1:]\<close> is \<open>tl\<close>; both are empty on an empty vector,
  as the slices are.
\<close>

definition parse :: "string \<Rightarrow> error + (int list \<times> int list)" where
  "parse line =
     (let line_split = string_split line in
      case strings_to_numbers (butlast line_split) of
        Inl e \<Rightarrow> Inl e
      | Inr input_seq \<Rightarrow>
          (case strings_to_numbers (tl line_split) of
             Inl e \<Rightarrow> Inl e
           | Inr output_seq \<Rightarrow> Inr (input_seq, output_seq)))"

text \<open>
  The split the specification speaks of, at every white-space character with the empty
  pieces dropped (Python's \<^verbatim>\<open>line.split()\<close>), to compare with the framework's split at the
  space character.
\<close>

fun whitespace_pieces :: "string \<Rightarrow> string list" where
  "whitespace_pieces [] = [[]]"
| "whitespace_pieces (c # cs) =
     (if is_space c then [] # whitespace_pieces cs
      else (case whitespace_pieces cs of [] \<Rightarrow> [[c]] | p # ps \<Rightarrow> (c # p) # ps))"

definition whitespace_split :: "string \<Rightarrow> string list" where
  "whitespace_split line = filter (\<lambda>p. p \<noteq> []) (whitespace_pieces line)"

subsection \<open>batch_train\<close>

text \<open>
  The fields of the trainer that \<open>batch_train\<close> reads.
\<close>

record RNNLM =
  num_epochs :: int
  check_point_step :: int
  initial_learning_rate :: real
  final_learning_rate :: real

text \<open>
  The session of the framework is seen through what its runs return. A data set is a
  file of finitely many lines, so an initialised iterator yields finitely many batches
  and then raises OutOfRangeError. \<open>runs path step\<close> lists, batch by batch, what a pass
  over the file at \<open>path\<close> returns when it starts at global step \<open>step\<close>: the summed loss
  \<open>np.sum(_loss)\<close> and the number of valid words. Losses are real numbers here; the
  floating point of the framework is not modelled.
\<close>

type_synonym runs = "string \<Rightarrow> int \<Rightarrow> (real \<times> int) list"

datatype event =
    InitTraining string
  | InitValidation string
  | TrainRun
  | EvalRun
  | PrintEpoch int
  | PrintTrainingStep int real
  | PrintTrainingPPL real
  | PrintValidationPPL real
  | SaveCheckpoint string

record train_state =
  epoch :: int
  patience :: int
  best_score :: "real option"
  global_step :: int
  log :: "event list"

text \<open>
  \<^verbatim>\<open>global_step % self.check_point_step == 0\<close> on numpy integers, whose remainder by
  zero is 0.
\<close>

definition checkpoint_due :: "int \<Rightarrow> int \<Rightarrow> bool" where
  "checkpoint_due step cps = (if cps = 0 then True else step mod cps = 0)"

text \<open>
  The inner loop over the training batches: one run per batch, which also advances the
  global step; the empty list is the OutOfRangeError that ends the pass. The result is
  the global step and the log.
\<close>

fun training_pass :: "RNNLM \<Rightarrow> (real \<times> int) list \<Rightarrow> int \<Rightarrow> real \<Rightarrow> int \<Rightarrow> event list \<Rightarrow> int \<times> event list" where
  "training_pass self [] step train_loss train_valid_words lg = (step, lg)"
| "training_pass self ((loss, valid_words) # batches) step train_loss train_valid_words lg =
     (let step' = step + 1;
          train_loss' = train_loss + loss;
          train_valid_words' = train_valid_words + valid_words
      in if checkpoint_due step' (check_point_step self)
         then training_pass self batches step' 0 0
                (lg @ [TrainRun,
                       PrintTrainingStep step'
                         (learning_rate (initial_learning_rate self) (final_learning_rate self) (nat step')),
                       PrintTrainingPPL (exp (train_loss' / real_of_int train_valid_words'))])
         else training_pass self batches step' train_loss' train_valid_words' (lg @ [TrainRun]))"

text \<open>The inner loop over the validation batches: the sums of the losses and of the valid words.\<close>

fun validation_pass :: "(real \<times> int) list \<Rightarrow> real \<Rightarrow> int \<Rightarrow> event list \<Rightarrow> real \<times> int \<times> event list" where
  "validation_pass [] dev_loss dev_valid_words lg = (dev_loss, dev_valid_words, lg)"
| "validation_pass ((loss, valid_words) # batches) dev_loss dev_valid_words lg =
     validation_pass batches (dev_loss + loss) (dev_valid_words + valid_words) (lg @ [EvalRun])"

text \<open>
  The body of the outer loop: a training pass, a validation pass, and the handler of the
  OutOfRangeError that ends the validation pass. When the validation file has no batch,
  \<open>dev_loss\<close> and \<open>dev_valid_words\<close> are still the Python numbers 0.0 and 0, and the
  division raises. \<open>best_score\<close> starts as infinity, which is \<open>None\<close>. The handler ends
  with \<^verbatim>\<open>epoch = self.num_epochs\<close>; the test \<^verbatim>\<open>if patience == 0:\<close> before it is commented
  out in the source.
\<close>

definition epoch_body :: "RNNLM \<Rightarrow> runs \<Rightarrow> string \<Rightarrow> string \<Rightarrow> train_state \<Rightarrow> error + train_state" where
  "epoch_body self data train_path valid_path st =
     (let lg0 = log st @ [InitTraining train_path, PrintEpoch (epoch st)];
          (step1, lg1) = training_pass self (data train_path (global_step st)) (global_step st) 0 0 lg0;
          valid_batches = data valid_path step1;
          (dev_loss, dev_valid_words, lg2) = validation_pass valid_batches 0 0 (lg1 @ [InitValidation valid_path])
      in if valid_batches = [] then Inl ZeroDivisionError
         else
           let dev_ppl = exp (dev_loss / real_of_int dev_valid_words);
               lg3 = lg2 @ [PrintValidationPPL dev_ppl];
               improved = (case best_score st of None \<Rightarrow> True | Some b \<Rightarrow> dev_ppl < b)
           in if improved
              then Inr (st\<lparr>epoch := num_epochs self, patience := 5, best_score := Some dev_ppl,
                          global_step := step1, log := lg3 @ [SaveCheckpoint ''model/best_model.ckpt'']\<rparr>)
              else Inr (st\<lparr>epoch := num_epochs self, patience := patience st - 1,
                          global_step := step1, log := lg3\<rparr>))"

text \<open>
  \<^verbatim>\<open>while epoch < self.num_epochs\<close>. The loop is defined as a partial function: that it
  returns is proved, not assumed.
\<close>

partial_function (option) epoch_loop ::
  "RNNLM \<Rightarrow> runs \<Rightarrow> string \<Rightarrow> string \<Rightarrow> train_state \<Rightarrow> (error + train_state) option" where
  "epoch_loop self data train_path valid_path st =
     (if epoch st < num_epochs self
      then (case epoch_body self data train_path valid_path st of
              Inl e \<Rightarrow> Some (Inl e)
            | Inr st' \<Rightarrow> epoch_loop self data train_path valid_path st')
      else Some (Inr st))"

definition batch_train :: "RNNLM \<Rightarrow> runs \<Rightarrow> string \<Rightarrow> string \<Rightarrow> int \<Rightarrow> (error + train_state) option" where
  "batch_train self data train_path valid_path step0 =
     epoch_loop self data train_path valid_path
       \<lparr>epoch = 0, patience = 5, best_score = None, global_step = step0, log = []\<rparr>"

text \<open>How many passes over the training file and over the validation file a log records.\<close>

definition training_passes :: "event list \<Rightarrow> nat" where
  "training_passes lg = length (filter (\<lambda>e. case e of InitTraining p \<Rightarrow> True | _ \<Rightarrow> False) lg)"

definition validation_passes :: "event list \<Rightarrow> nat" where
  "validation_passes lg = length (filter (\<lambda>e. case e of InitValidation p \<Rightarrow> True | _ \<Rightarrow> False) lg)"

section \<open>Concrete instances\<close>

text \<open>
  A pipeline whose remote side numbers its frames: renaming a column of frame \<open>df\<close> gives
  frame \<open>df + 1\<close>, and the model transforms frame \<open>df\<close> into frame \<open>df + 10\<close>.
\<close>

definition pipe0 :: PretrainedPipeline where
  "pipe0 = \<lparr>withColumnRenamed = (\<lambda>df c n. Inr (df + 1)), model_transform = (\<lambda>df. Inr (df + 10)),
     light_annotate = (\<lambda>v. Inr (PyList [v])), light_fullAnnotate = (\<lambda>v. Inr (PyList [PyList [v]]))\<rparr>"

text \<open>An annotator as a superclass constructor may leave it: nothing set, one default of its own.\<close>

definition base0 :: XlnetEmbeddings where
  "base0 = \<lparr>uid = ''XlnetEmbeddings_1'', java_obj = Some 7, paramMap = Map.empty,
     defaultParamMap = [''lazyAnnotator'' \<mapsto> PyBool False]\<rparr>"

text \<open>A trainer asked for three epochs, and a session whose every pass has one batch.\<close>

definition rnn3 :: RNNLM where
  "rnn3 = \<lparr>num_epochs = 3, check_point_step = 100, initial_learning_rate = 1, final_learning_rate = 0.001\<rparr>"

definition one_batch :: runs where
  "one_batch path step = [(0, 1)]"

section \<open>Properties\<close>

subsection \<open>printProgress\<close>





subsection \<open>ResourceDownloader\<close>

text \<open>
  Claim C1. downloadModel is meant to build the wrapper \<open>_DownloadModel\<close> from
  \<open>reader.name\<close>, the name, the language and the remote location, apply it and wrap the
  handle. It passes four arguments to a constructor that requires five (\<open>validator\<close> has
  no default), so for every reader, name, language and remote location the call raises
  TypeError after the first line is printed, and no instance is returned.
\<close>

theorem downloadModel_raises_TypeError:
  "downloadModel remote r name language remote_loc =
     ([name @ '' download started this may take some time''],
      Inl TypeError)"
  by (simp add: downloadModel_def DownloadModel_init_def)

text \<open>
  Claim C4. showPublicModels is meant to build the wrapper \<open>_ShowPublicModels\<close> and forward
  the call. It passes no argument to a constructor that requires three, so every call
  raises TypeError after printing \<open>test\<close>, and nothing is forwarded.
\<close>

theorem showPublicModels_raises_TypeError:
  "showPublicModels remote = ([''test''], Inl TypeError)"
  by (simp add: showPublicModels_def ShowPublicModels_init_def)

subsection \<open>PretrainedPipeline\<close>



text \<open>
  Claim C8. On a DataFrame and a non-empty column name, annotate and fullAnnotate compute
  the same: both rename the column to \<open>text\<close> and return \<open>model.transform\<close> of the renamed
  frame (or the error of the remote call that failed).
\<close>

theorem annotate_fullAnnotate_DataFrame:
  "c \<noteq> [] \<Longrightarrow>
   annotate self (PyDataFrame df) (PyStr c) = fullAnnotate self (PyDataFrame df) (PyStr c)
   \<and> annotate self (PyDataFrame df) (PyStr c) =
       (case remote_call (withColumnRenamed self df (PyStr c) ''text'') of
          Inl e \<Rightarrow> Inl e
        | Inr renamed \<Rightarrow>
            (case remote_call (model_transform self renamed) of
               Inl e \<Rightarrow> Inl e
             | Inr res \<Rightarrow> Inr (PyDataFrame res)))"
  by (simp add: annotate_def fullAnnotate_def transform_renamed_def)

theorem annotate_fullAnnotate_DataFrame_witness:
  "''body'' \<noteq> []
   \<and> annotate pipe0 (PyDataFrame 1) (PyStr ''body'') = fullAnnotate pipe0 (PyDataFrame 1) (PyStr ''body'')
   \<and> fullAnnotate pipe0 (PyDataFrame 1) (PyStr ''body'') = Inr (PyDataFrame 12)"
  using annotate_fullAnnotate_DataFrame [of "''body''" pipe0 1]
  by (simp add: pipe0_def remote_call_def annotate_def fullAnnotate_def transform_renamed_def)

subsection \<open>XlnetEmbeddings\<close>

text \<open>
  Claim C5. A freshly constructed XlnetEmbeddings, on which no parameter was set and whose
  superclass constructor gave \<open>configProtoBytes\<close> no default, has the defaults
  \<open>batchSize = 8\<close>, \<open>dimension = 768\<close>, \<open>maxSentenceLength = 128\<close> and
  \<open>caseSensitive = True\<close>, which are also the values it reads, and no default and no
  value for \<open>configProtoBytes\<close>.
\<close>

theorem XlnetEmbeddings_defaults:
  assumes "paramMap base = Map.empty" and "defaultParamMap base ''configProtoBytes'' = None"
  shows "\<exists>self. XlnetEmbeddings_init base = Inr self
           \<and> defaultParamMap self ''batchSize'' = Some (PyInt 8)
           \<and> defaultParamMap self ''dimension'' = Some (PyInt 768)
           \<and> defaultParamMap self ''maxSentenceLength'' = Some (PyInt 128)
           \<and> defaultParamMap self ''caseSensitive'' = Some (PyBool True)
           \<and> defaultParamMap self ''configProtoBytes'' = None
           \<and> getOrDefault self ''batchSize'' = Some (PyInt 8)
           \<and> getOrDefault self ''dimension'' = Some (PyInt 768)
           \<and> getOrDefault self ''maxSentenceLength'' = Some (PyInt 128)
           \<and> getOrDefault self ''caseSensitive'' = Some (PyBool True)
           \<and> getOrDefault self ''configProtoBytes'' = None
           \<and> paramMap self = Map.empty"
  using assms
  by (simp add: XlnetEmbeddings_init_def typeConverter_def toInt_def toBoolean_def getOrDefault_def)

theorem XlnetEmbeddings_defaults_witness:
  "paramMap base0 = Map.empty \<and> defaultParamMap base0 ''configProtoBytes'' = None
   \<and> XlnetEmbeddings_init base0 =
       Inr (base0\<lparr>defaultParamMap :=
              [''lazyAnnotator'' \<mapsto> PyBool False, ''batchSize'' \<mapsto> PyInt 8, ''dimension'' \<mapsto> PyInt 768,
               ''maxSentenceLength'' \<mapsto> PyInt 128, ''caseSensitive'' \<mapsto> PyBool True]\<rparr>)
   \<and> (\<exists>self. XlnetEmbeddings_init base0 = Inr self
         \<and> getOrDefault self ''batchSize'' = Some (PyInt 8)
         \<and> getOrDefault self ''configProtoBytes'' = None)"
proof -
  have a: "paramMap base0 = Map.empty" by (simp add: base0_def)
  have b: "defaultParamMap base0 ''configProtoBytes'' = None" by (simp add: base0_def)
  have c: "XlnetEmbeddings_init base0 =
       Inr (base0\<lparr>defaultParamMap :=
              [''lazyAnnotator'' \<mapsto> PyBool False, ''batchSize'' \<mapsto> PyInt 8, ''dimension'' \<mapsto> PyInt 768,
               ''maxSentenceLength'' \<mapsto> PyInt 128, ''caseSensitive'' \<mapsto> PyBool True]\<rparr>)"
    by (simp add: XlnetEmbeddings_init_def typeConverter_def toInt_def toBoolean_def base0_def)
  from XlnetEmbeddings_defaults [OF a b] obtain self where
    "XlnetEmbeddings_init base0 = Inr self" "getOrDefault self ''batchSize'' = Some (PyInt 8)"
    "getOrDefault self ''configProtoBytes'' = None"
    by blast
  then have "\<exists>self. XlnetEmbeddings_init base0 = Inr self
         \<and> getOrDefault self ''batchSize'' = Some (PyInt 8)
         \<and> getOrDefault self ''configProtoBytes'' = None"
    by blast
  with a b c show ?thesis by blast
qed

text \<open>
  For every integer \<open>v\<close> that converts to a double, \<open>setMaxSentenceLength(v)\<close> returns the
  instance itself with \<open>maxSentenceLength\<close> set to \<open>v\<close>: the value read for
  \<open>maxSentenceLength\<close> is \<open>v\<close>, the values read for \<open>batchSize\<close>, \<open>dimension\<close>,
  \<open>caseSensitive\<close> and \<open>configProtoBytes\<close> are what they were, and the defaults, the
  identity and the remote handle of the instance are unchanged.
\<close>

lemma setMaxSentenceLength_frame:
  assumes "\<bar>v\<bar> < 2 ^ 1024 - 2 ^ 970"
  shows "setMaxSentenceLength self (PyInt v) =
           Inr (self\<lparr>paramMap := (paramMap self)(''maxSentenceLength'' \<mapsto> PyInt v)\<rparr>)
         \<and> (\<exists>self'. setMaxSentenceLength self (PyInt v) = Inr self'
              \<and> getOrDefault self' ''maxSentenceLength'' = Some (PyInt v)
              \<and> getOrDefault self' ''batchSize'' = getOrDefault self ''batchSize''
              \<and> getOrDefault self' ''dimension'' = getOrDefault self ''dimension''
              \<and> getOrDefault self' ''caseSensitive'' = getOrDefault self ''caseSensitive''
              \<and> getOrDefault self' ''configProtoBytes'' = getOrDefault self ''configProtoBytes''
              \<and> defaultParamMap self' = defaultParamMap self
              \<and> uid self' = uid self \<and> java_obj self' = java_obj self)"
  using assms
  by (simp add: setMaxSentenceLength_def Params_set_def typeConverter_def toInt_def getOrDefault_def
        split: option.split)



subsection \<open>RNNLM\<close>

lemma epoch_body_sets_epoch:
  "epoch_body self data train_path valid_path st = Inr st' \<Longrightarrow> epoch st' = num_epochs self"
  by (auto simp: epoch_body_def Let_def split: prod.splits if_splits)

lemma epoch_loop_done:
  "\<not> epoch st < num_epochs self \<Longrightarrow> epoch_loop self data train_path valid_path st = Some (Inr st)"
  by (subst epoch_loop.simps) simp

text \<open>
  Whatever \<open>num_epochs \<ge> 1\<close> is, batch_train returns after one run of the body of its
  outer loop: one training pass and one validation pass.
\<close>

lemma batch_train_one_epoch:
  assumes "0 < num_epochs self"
  shows "batch_train self data train_path valid_path step0 =
           Some (epoch_body self data train_path valid_path
                   \<lparr>epoch = 0, patience = 5, best_score = None, global_step = step0, log = []\<rparr>)"
proof (cases "epoch_body self data train_path valid_path
                   \<lparr>epoch = 0, patience = 5, best_score = None, global_step = step0, log = []\<rparr>")
  case (Inl e)
  with assms show ?thesis
    unfolding batch_train_def by (subst epoch_loop.simps) simp
next
  case (Inr st')
  then have "epoch st' = num_epochs self"
    by (rule epoch_body_sets_epoch)
  then have "epoch_loop self data train_path valid_path st' = Some (Inr st')"
    by (simp add: epoch_loop_done)
  with Inr assms show ?thesis
    unfolding batch_train_def by (subst epoch_loop.simps) simp
qed

text \<open>
  Claim C2. The outer loop of batch_train is meant to run \<open>num_epochs\<close> iterations, each a
  training pass followed by a validation pass. With \<open>num_epochs = 3\<close> it runs one: the
  handler that ends the validation pass sets \<open>epoch\<close> to \<open>num_epochs\<close>. The log of the
  run holds one pass over the training file and one over the validation file.
\<close>

theorem batch_train_three_epochs_runs_one:
  "batch_train rnn3 one_batch ''train.txt'' ''valid.txt'' 0 =
     Some (Inr \<lparr>epoch = 3, patience = 5, best_score = Some 1, global_step = 1,
                 log = [InitTraining ''train.txt'', PrintEpoch 0, TrainRun,
                        InitValidation ''valid.txt'', EvalRun, PrintValidationPPL 1,
                        SaveCheckpoint ''model/best_model.ckpt'']\<rparr>)
   \<and> training_passes [InitTraining ''train.txt'', PrintEpoch 0, TrainRun,
                        InitValidation ''valid.txt'', EvalRun, PrintValidationPPL 1,
                        SaveCheckpoint ''model/best_model.ckpt''] = 1
   \<and> validation_passes [InitTraining ''train.txt'', PrintEpoch 0, TrainRun,
                        InitValidation ''valid.txt'', EvalRun, PrintValidationPPL 1,
                        SaveCheckpoint ''model/best_model.ckpt''] = 1"
proof -
  have pos: "0 < num_epochs rnn3"
    by (simp add: rnn3_def)
  have body: "epoch_body rnn3 one_batch ''train.txt'' ''valid.txt''
                \<lparr>epoch = 0, patience = 5, best_score = None, global_step = 0, log = []\<rparr> =
     Inr \<lparr>epoch = 3, patience = 5, best_score = Some 1, global_step = 1,
                 log = [InitTraining ''train.txt'', PrintEpoch 0, TrainRun,
                        InitValidation ''valid.txt'', EvalRun, PrintValidationPPL 1,
                        SaveCheckpoint ''model/best_model.ckpt'']\<rparr>"
    by (simp add: epoch_body_def rnn3_def one_batch_def checkpoint_due_def)
  show ?thesis
    unfolding batch_train_one_epoch [OF pos] body
    by (simp add: training_passes_def validation_passes_def)
qed


lemma strings_to_numbers_map:
  "strings_to_numbers ts = Inr vs \<longleftrightarrow> map string_to_number ts = map Inr vs"
proof (induction ts arbitrary: vs)
  case Nil
  then show ?case by auto
next
  case (Cons t ts)
  show ?case
  proof (cases "string_to_number t")
    case (Inl e)
    then show ?thesis by (cases vs) auto
  next
    case (Inr v)
    show ?thesis
    proof (cases "strings_to_numbers ts")
      case (Inl e)
      have "map string_to_number ts \<noteq> map Inr ws" for ws
        using Cons.IH [of ws] Inl by simp
      with Inr Inl show ?thesis by (cases vs) auto
    next
      case inner: (Inr ws)
      with Inr Cons.IH [of ws] Cons.IH show ?thesis
        by (cases vs) auto
    qed
  qed
qed

lemma all_numbers_values:
  "(\<And>t. t \<in> set ts \<Longrightarrow> \<exists>v. string_to_number t = Inr v) \<Longrightarrow>
   \<exists>vs. map string_to_number ts = map Inr vs"
proof (induction ts)
  case Nil
  show ?case by simp
next
  case (Cons t ts)
  from Cons.prems [of t] obtain v where v: "string_to_number t = Inr v"
    by auto
  from Cons.IH Cons.prems obtain vs where "map string_to_number ts = map Inr vs"
    by auto
  with v have "map string_to_number (t # ts) = map Inr (v # vs)"
    by simp
  then show ?case by blast
qed

text \<open>
  The framework's split is the whitespace split of a line whose only white space is the
  space character.
\<close>

lemma whitespace_pieces_only_spaces:
  "(\<And>c. c \<in> set line \<Longrightarrow> is_space c \<Longrightarrow> c = CHR '' '') \<Longrightarrow> whitespace_pieces line = pieces line"
proof (induction line)
  case Nil
  show ?case by simp
next
  case (Cons c cs)
  have rest: "whitespace_pieces cs = pieces cs"
    using Cons.prems by (intro Cons.IH) simp_all
  have "is_space c \<longleftrightarrow> c = CHR '' ''"
    using Cons.prems [of c] by (auto simp: is_space_def)
  with rest show ?case by simp
qed

lemma whitespace_split_only_spaces:
  "(\<And>c. c \<in> set line \<Longrightarrow> is_space c \<Longrightarrow> c = CHR '' '') \<Longrightarrow> whitespace_split line = string_split line"
  by (simp add: whitespace_split_def string_split_def whitespace_pieces_only_spaces)

text \<open>
  Claim C9, as amended. For every line whose split at the space character gives
  \<open>n \<ge> 1\<close> tokens \<open>t\<^sub>0 ... t\<^bsub>n-1\<^esub>\<close>, and in which every token that parse converts
  (\<open>t\<^sub>0 ... t\<^bsub>n-2\<^esub>\<close> and \<open>t\<^sub>1 ... t\<^bsub>n-1\<^esub>\<close>) is a 32-bit decimal number, parse returns the
  numbers of \<open>t\<^sub>0 ... t\<^bsub>n-2\<^esub>\<close> and the numbers of \<open>t\<^sub>1 ... t\<^bsub>n-1\<^esub>\<close>: the output sequence is
  the input sequence shifted left by one position, and both have length \<open>n - 1\<close>.
\<close>

theorem parse_shift:
  assumes "string_split line \<noteq> []"
    and "\<forall>t \<in> set (butlast (string_split line)) \<union> set (tl (string_split line)).
           \<exists>v. string_to_number t = Inr v"
  shows "\<exists>input_seq output_seq.
           parse line = Inr (input_seq, output_seq)
         \<and> map Inr input_seq = map string_to_number (butlast (string_split line))
         \<and> map Inr output_seq = map string_to_number (tl (string_split line))
         \<and> length input_seq = length (string_split line) - 1
         \<and> length output_seq = length (string_split line) - 1
         \<and> (\<forall>i. Suc i < length input_seq \<longrightarrow> output_seq ! i = input_seq ! Suc i)"
proof -
  define ts where "ts = string_split line"
  from assms(2) obtain inp where inp: "map string_to_number (butlast ts) = map Inr inp"
    unfolding ts_def using all_numbers_values [of "butlast (string_split line)"] by auto
  from assms(2) obtain outp where outp: "map string_to_number (tl ts) = map Inr outp"
    unfolding ts_def using all_numbers_values [of "tl (string_split line)"] by auto
  have res: "parse line = Inr (inp, outp)"
    using inp outp by (simp add: parse_def ts_def [symmetric] strings_to_numbers_map [THEN iffD2])
  have len_inp: "length inp = length ts - 1"
    using inp by (metis length_butlast length_map)
  have len_outp: "length outp = length ts - 1"
    using outp by (metis length_tl length_map)
  have shift: "outp ! i = inp ! Suc i" if "Suc i < length inp" for i
  proof -
    have i_in: "i < length outp" "Suc i < length ts - 1"
      using that len_inp len_outp by simp_all
    have "Inr (outp ! i) = map Inr outp ! i"
      using i_in by simp
    also have "\<dots> = string_to_number (tl ts ! i)"
      using i_in len_outp by (simp add: outp [symmetric])
    also have "tl ts ! i = ts ! Suc i"
      using i_in by (simp add: nth_tl)
    also have "ts ! Suc i = butlast ts ! Suc i"
      using i_in by (simp add: nth_butlast)
    also have "string_to_number (butlast ts ! Suc i) = map Inr inp ! Suc i"
      using i_in by (simp add: inp [symmetric])
    also have "\<dots> = Inr (inp ! Suc i)"
      using that by simp
    finally show ?thesis by simp
  qed
  show ?thesis
    using res inp outp len_inp len_outp shift unfolding ts_def by auto
qed

theorem parse_shift_witness:
  "string_split ''1 8008 3358 2'' \<noteq> []
   \<and> (\<exists>input_seq output_seq.
         parse ''1 8008 3358 2'' = Inr (input_seq, output_seq)
       \<and> length input_seq = 3 \<and> length output_seq = 3
       \<and> output_seq ! 0 = input_seq ! 1 \<and> output_seq ! 1 = input_seq ! 2)
   \<and> parse ''1 8008 3358 2'' = Inr ([1, 8008, 3358], [8008, 3358, 2])
   \<and> string_split ''a'' \<noteq> [] \<and> parse ''a'' = Inr ([], [])"
proof -
  have toks: "string_split ''1 8008 3358 2'' = [''1'', ''8008'', ''3358'', ''2'']"
    by (simp add: string_split_def)
  have nums: "map string_to_number [''1'', ''8008'', ''3358'', ''2''] = map Inr [1, 8008, 3358, 2]"
    by (simp add: string_to_number_def is_space_def is_digit_def digits_value_def)
  have a: "string_split ''1 8008 3358 2'' \<noteq> []"
    using toks by simp
  have b: "\<forall>t \<in> set (butlast (string_split ''1 8008 3358 2'')) \<union> set (tl (string_split ''1 8008 3358 2'')).
           \<exists>v. string_to_number t = Inr v"
    using nums unfolding toks by auto
  have one: "string_split ''a'' = [''a'']"
    by (simp add: string_split_def)
  have a': "string_split ''a'' \<noteq> []"
    using one by simp
  have b': "\<forall>t \<in> set (butlast (string_split ''a'')) \<union> set (tl (string_split ''a'')).
           \<exists>v. string_to_number t = Inr v"
    unfolding one by simp
  from parse_shift [OF a b] obtain inp outp where
    r: "parse ''1 8008 3358 2'' = Inr (inp, outp)"
      "length inp = length (string_split ''1 8008 3358 2'') - 1"
      "length outp = length (string_split ''1 8008 3358 2'') - 1"
      "\<forall>i. Suc i < length inp \<longrightarrow> outp ! i = inp ! Suc i"
    by blast
  have first: "\<exists>input_seq output_seq.
         parse ''1 8008 3358 2'' = Inr (input_seq, output_seq)
       \<and> length input_seq = 3 \<and> length output_seq = 3
       \<and> output_seq ! 0 = input_seq ! 1 \<and> output_seq ! 1 = input_seq ! 2"
    using r unfolding toks by (intro exI [of _ inp] exI [of _ outp]) (simp add: numeral_2_eq_2)
  have direct: "parse ''1 8008 3358 2'' = Inr ([1, 8008, 3358], [8008, 3358, 2])"
    using nums by (simp add: parse_def toks)
  from parse_shift [OF a' b'] obtain inp' outp' where
    "parse ''a'' = Inr (inp', outp')" "length inp' = length (string_split ''a'') - 1"
    "length outp' = length (string_split ''a'') - 1"
    by blast
  then have single: "parse ''a'' = Inr ([], [])"
    unfolding one by simp
  show ?thesis
    using a first direct a' single by blast
qed

text \<open>
  Claim C9 as stated fails in two ways. The line \<open>a b\<close> splits into the two tokens \<open>a\<close>
  and \<open>b\<close>, and parse returns no pair for it: the conversion of a token that is not a
  number raises the framework's InvalidArgumentError. And the whitespace split of the
  line \<open>1\<close>, tab, \<open>2 3\<close> is the three numbers \<open>1\<close>, \<open>2\<close>, \<open>3\<close>, but parse raises on it as
  well: the framework splits at the space only, and \<open>1\<close>, tab, \<open>2\<close> is no number.
\<close>

theorem parse_counterexample:
  "whitespace_split ''a b'' = [''a'', ''b''] \<and> parse ''a b'' = Inl InvalidArgumentError
   \<and> whitespace_split [CHR ''1'', CHR 0x09, CHR ''2'', CHR '' '', CHR ''3''] = [''1'', ''2'', ''3'']
   \<and> map string_to_number [''1'', ''2'', ''3''] = map Inr [1, 2, 3]
   \<and> parse [CHR ''1'', CHR 0x09, CHR ''2'', CHR '' '', CHR ''3''] = Inl InvalidArgumentError"
  by (simp add: parse_def string_split_def whitespace_split_def string_to_number_def is_space_def
        is_digit_def digits_value_def)

end
